theory Spec2Isabelle
  imports Complex_Main "HOL-Library.Sublist"
begin

section \<open>Python values used by bot.py\<close>

text \<open>
  A Python \<open>str\<close> is a sequence of Unicode code points, so it is modelled as a list of
  natural numbers (one per code point): slicing, \<open>split\<close> and \<open>replace\<close> then count what
  Python counts. \<open>ascii\<close> writes the ASCII part of a literal; other code points are given
  by number.
\<close>

type_synonym ustr = "nat list"

definition ascii :: "string \<Rightarrow> ustr" where
  "ascii s = map of_char s"

text \<open>The code points for which \<open>str.isspace\<close> holds; \<open>str.split()\<close> splits on them.\<close>

definition is_space :: "nat \<Rightarrow> bool" where
  "is_space c =
     ((9 \<le> c \<and> c \<le> 13) \<or> (28 \<le> c \<and> c \<le> 32) \<or> c = 133 \<or> c = 160 \<or> c = 5760 \<or>
      (8192 \<le> c \<and> c \<le> 8202) \<or> c = 8232 \<or> c = 8233 \<or> c = 8239 \<or> c = 8287 \<or> c = 12288)"

text \<open>\<open>s.split()\<close>: the maximal runs of non-whitespace; \<open>cur\<close> is the run being read.\<close>

fun split_ws :: "ustr \<Rightarrow> ustr \<Rightarrow> ustr list" where
  "split_ws cur [] = (if cur = [] then [] else [cur])"
| "split_ws cur (c # cs) =
     (if is_space c then (if cur = [] then split_ws [] cs else cur # split_ws [] cs)
      else split_ws (cur @ [c]) cs)"

definition py_split :: "ustr \<Rightarrow> ustr list" where
  "py_split s = split_ws [] s"

text \<open>\<open>s.split(sep)\<close> for a one-character separator: every occurrence cuts, empty pieces stay.\<close>

fun split_sep :: "nat \<Rightarrow> ustr \<Rightarrow> ustr \<Rightarrow> ustr list" where
  "split_sep sep cur [] = [cur]"
| "split_sep sep cur (c # cs) =
     (if c = sep then cur # split_sep sep [] cs else split_sep sep (cur @ [c]) cs)"

definition py_split_on :: "nat \<Rightarrow> ustr \<Rightarrow> ustr list" where
  "py_split_on sep s = split_sep sep [] s"

text \<open>\<open>sep.join(xs)\<close>.\<close>

fun py_join :: "ustr \<Rightarrow> ustr list \<Rightarrow> ustr" where
  "py_join sep [] = []"
| "py_join sep [x] = x"
| "py_join sep (x # y # xs) = x @ sep @ py_join sep (y # xs)"

text \<open>\<open>s.replace(a, b)\<close> for one-character \<open>a\<close> and \<open>b\<close>.\<close>

definition py_replace :: "nat \<Rightarrow> nat \<Rightarrow> ustr \<Rightarrow> ustr" where
  "py_replace a b s = map (\<lambda>c. if c = a then b else c) s"

text \<open>\<open>str(n)\<close> for an \<open>int\<close>: decimal digits, with a leading minus sign below zero.\<close>

fun dec_digits :: "nat \<Rightarrow> ustr" where
  "dec_digits n = (if n < 10 then [48 + n] else dec_digits (n div 10) @ [48 + n mod 10])"

declare dec_digits.simps [simp del]

definition py_str_int :: "int \<Rightarrow> ustr" where
  "py_str_int i = (if i < 0 then 45 # dec_digits (nat (- i)) else dec_digits (nat i))"

text \<open>The exceptions that the handlers can raise or catch.\<close>

datatype exn =
    ValueError | AttributeError | TypeError | KeyError | IndexError
  | StorageError | RequestError | CompletionError

text \<open>
  A decoded JSON document, as \<open>response.json()\<close> returns it: \<open>None\<close>, \<open>bool\<close>, \<open>int\<close>,
  \<open>float\<close> (finite values, as rationals), \<open>str\<close>, \<open>list\<close> and \<open>dict\<close> (an association
  list, read by \<open>map_of\<close>).
\<close>

datatype json =
    JNull | JBool bool | JInt int | JFloat rat | JStr ustr
  | JArr "json list" | JObj "(ustr \<times> json) list"

text \<open>Truth value of a Python object, as \<open>not x\<close> tests it.\<close>

fun py_truthy :: "json \<Rightarrow> bool" where
  "py_truthy JNull = False"
| "py_truthy (JBool b) = b"
| "py_truthy (JInt i) = (i \<noteq> 0)"
| "py_truthy (JFloat r) = (r \<noteq> 0)"
| "py_truthy (JStr s) = (s \<noteq> [])"
| "py_truthy (JArr xs) = (xs \<noteq> [])"
| "py_truthy (JObj kvs) = (kvs \<noteq> [])"

text \<open>\<open>x.get(k, d)\<close>: only a dict has the method.\<close>

fun py_get :: "json \<Rightarrow> ustr \<Rightarrow> json \<Rightarrow> exn + json" where
  "py_get (JObj kvs) k d = Inr (case map_of kvs k of None \<Rightarrow> d | Some v \<Rightarrow> v)"
| "py_get _ k d = Inl AttributeError"

text \<open>
  \<open>x[0]\<close>: the first element of a list or string; a dict decoded from JSON has string
  keys only, so the key \<open>0\<close> is missing; other values are not subscriptable.
\<close>

fun py_item0 :: "json \<Rightarrow> exn + json" where
  "py_item0 (JArr []) = Inl IndexError"
| "py_item0 (JArr (x # xs)) = Inr x"
| "py_item0 (JStr []) = Inl IndexError"
| "py_item0 (JStr (c # cs)) = Inr (JStr [c])"
| "py_item0 (JObj kvs) = Inl KeyError"
| "py_item0 _ = Inl TypeError"

text \<open>
  A value inside an f-string: a \<open>str\<close> is inserted as it is, any other value through
  Python's \<open>format\<close>, which is a parameter \<open>fmt\<close> of the model.
\<close>

fun py_format :: "(json \<Rightarrow> ustr) \<Rightarrow> json \<Rightarrow> ustr" where
  "py_format fmt (JStr s) = s"
| "py_format fmt v = fmt v"

text \<open>Sequencing of steps that can raise: the first exception ends the computation.\<close>

definition and_then :: "exn + 'a \<Rightarrow> ('a \<Rightarrow> exn + 'b) \<Rightarrow> exn + 'b" where
  "and_then r f = (case r of Inl e \<Rightarrow> Inl e | Inr x \<Rightarrow> f x)"

section \<open>State, environment and effects\<close>

record claim_row =
  row_user_id :: int
  row_username :: "ustr option"
  row_claim :: ustr

type_synonym keyboard = "(ustr \<times> ustr) list list"

text \<open>
  What a handler does to the outside world, in the order it does it. \<open>Reply text
  markdown markup no_preview\<close> is a \<open>reply_text\<close> call with its keyword arguments.
\<close>

datatype effect =
    DbInsert claim_row
  | HttpGetClaimsSearch ustr
  | ChatCompletion "(ustr \<times> ustr) list" nat
  | LogError
  | AnswerCallback
  | Reply ustr bool "keyboard option" bool

text \<open>
  \<open>claims_db\<close> is the table \<open>claims\<close> (its rows in insertion order; the id and the
  timestamp are assigned by the database), \<open>feedback_store\<close> the module-level dict.
\<close>

record world =
  claims_db :: "claim_row list"
  feedback_store :: "ustr \<rightharpoonup> ustr"
  trace :: "effect list"

text \<open>
  What the handlers read from outside: the admin list, whether the database accepts
  the write, what the two remote services answer to a request (an exception or a decoded
  body), and Python's \<open>format\<close> for values that are not strings.
\<close>

record env =
  ADMIN_IDS :: "int list"
  storage_ok :: bool
  claims_search :: "ustr \<Rightarrow> exn + json"
  chat_completion :: "ustr \<Rightarrow> exn + json"
  format_value :: "json \<Rightarrow> ustr"

record update =
  effective_user_id :: int
  effective_user_username :: "ustr option"
  message_text :: ustr

record callback_query =
  query_data :: ustr
  from_user_id :: int

definition emit :: "effect \<Rightarrow> world \<Rightarrow> world" where
  "emit e w = w\<lparr>trace := trace w @ [e]\<rparr>"

section \<open>The feedback tracker\<close>

definition ALREADY_VOTED_TEXT :: ustr where
  "ALREADY_VOTED_TEXT = [0x2705] @ ascii '' You already voted.''"

definition THANKS_TEXT :: ustr where
  "THANKS_TEXT = [0x1F64C] @ ascii '' Thanks for your feedback!''"

definition vote_key :: "ustr \<Rightarrow> int \<Rightarrow> ustr" where
  "vote_key claim_id uid = claim_id @ ascii ''_'' @ py_str_int uid"

text \<open>
  \<open>vote_handler\<close>: the unpacking \<open>vote_type, claim_id = query.data.split(":")\<close> raises
  \<open>ValueError\<close> unless the split has exactly two pieces.
\<close>

definition vote_handler :: "callback_query \<Rightarrow> world \<Rightarrow> exn option \<times> world" where
  "vote_handler q w =
     (let w1 = emit AnswerCallback w in
      case py_split_on 58 (query_data q) of
        [vote_type, claim_id] \<Rightarrow>
          (let key = vote_key claim_id (from_user_id q) in
           case feedback_store w1 key of
             Some v \<Rightarrow> (None, emit (Reply ALREADY_VOTED_TEXT False None False) w1)
           | None \<Rightarrow>
               (None, emit (Reply THANKS_TEXT False None False)
                        (w1\<lparr>feedback_store := (feedback_store w1)(key \<mapsto> vote_type)\<rparr>)))
      | _ \<Rightarrow> (Some ValueError, w1))"

definition create_vote_buttons :: "ustr \<Rightarrow> keyboard" where
  "create_vote_buttons claim_id =
     [[([0x1F44D] @ ascii '' Helpful'', ascii ''vote_yes:'' @ claim_id),
       ([0x1F44E] @ ascii '' Not Helpful'', ascii ''vote_no:'' @ claim_id)]]"

section \<open>The fact-check lookup\<close>

text \<open>
  Lines 57 to 71 of \<open>query_google_fact_check_api\<close>: the summary built from the claim
  object \<open>c\<close>. Every \<open>.get\<close> and the subscript \<open>[0]\<close> can raise.
\<close>

definition first_claim_summary :: "(json \<Rightarrow> ustr) \<Rightarrow> json \<Rightarrow> exn + ustr" where
  "first_claim_summary fmt c =
     and_then (py_get c (ascii ''text'') (JStr (ascii ''Unknown''))) (\<lambda>text.
     and_then (py_get c (ascii ''claimant'') (JStr (ascii ''Unknown''))) (\<lambda>source.
     and_then (py_get c (ascii ''claimReview'') (JArr [JObj []])) (\<lambda>reviews.
     and_then (py_item0 reviews) (\<lambda>review.
     and_then (py_get review (ascii ''textualRating'') (JStr (ascii ''Unrated''))) (\<lambda>rating.
     and_then (py_get review (ascii ''publisher'') (JObj [])) (\<lambda>publisher.
     and_then (py_get publisher (ascii ''name'') (JStr (ascii ''Unknown''))) (\<lambda>pub.
     and_then (py_get review (ascii ''url'') (JStr [])) (\<lambda>url.
       Inr ([0x1F50E] @ ascii '' *Claim:* '' @ py_format fmt text @ [10] @
            [0x1F464] @ ascii '' *Source:* '' @ py_format fmt source @ [10] @
            [0x1F4DD] @ ascii '' *Rating:* '' @ py_format fmt rating @ [10] @
            [0x1F3E2] @ ascii '' *Publisher:* '' @ py_format fmt pub @ [10] @
            [0x1F517] @ ascii '' [Read more]('' @ py_format fmt url @ ascii '')'')))))))))"

text \<open>
  \<open>query_google_fact_check_api\<close>: one HTTP request; a failure of the request or of the
  decoding is the exception that \<open>claims_search\<close> gives. The result is \<open>None\<close> or the
  summary string.
\<close>

definition query_google_fact_check_api ::
    "env \<Rightarrow> ustr \<Rightarrow> world \<Rightarrow> (exn + ustr option) \<times> world" where
  "query_google_fact_check_api env claim w =
     (and_then (claims_search env claim) (\<lambda>data.
      and_then (py_get data (ascii ''claims'') JNull) (\<lambda>claims.
        if \<not> py_truthy claims then Inr None
        else
          and_then (py_item0 claims) (\<lambda>c.
          and_then (first_claim_summary (format_value env) c) (\<lambda>s.
            Inr (Some s))))),
      emit (HttpGetClaimsSearch claim) w)"

section \<open>The AI fallback advisor\<close>

definition AI_UNAVAILABLE_TEXT :: ustr where
  "AI_UNAVAILABLE_TEXT = [0x26A0, 0xFE0F] @ ascii '' AI check unavailable right now.''"

definition AI_PREFIX :: ustr where
  "AI_PREFIX = [0x1F916] @ ascii '' *AI Suggestion:*'' @ [10, 10]"

definition completion_messages :: "ustr \<Rightarrow> (ustr \<times> ustr) list" where
  "completion_messages claim =
     [(ascii ''system'', ascii ''You'' @ [39] @ ascii ''re a factual assistant. Be objective.''),
      (ascii ''user'', ascii ''Is this claim true or false?'' @ [10] @ ascii ''Claim: '' @ claim)]"

text \<open>\<open>x[k]\<close> for a string key: \<open>KeyError\<close> on a dict without it, \<open>TypeError\<close> elsewhere.\<close>

fun py_item :: "json \<Rightarrow> ustr \<Rightarrow> exn + json" where
  "py_item (JObj kvs) k = (case map_of kvs k of None \<Rightarrow> Inl KeyError | Some v \<Rightarrow> Inr v)"
| "py_item _ k = Inl TypeError"

text \<open>\<open>res['choices'][0]['message']['content']\<close>.\<close>

definition completion_content :: "json \<Rightarrow> exn + json" where
  "completion_content res =
     and_then (py_item res (ascii ''choices'')) (\<lambda>choices.
     and_then (py_item0 choices) (\<lambda>choice.
     and_then (py_item choice (ascii ''message'')) (\<lambda>message.
       py_item message (ascii ''content''))))"

text \<open>
  \<open>ai_suggest_fact_check\<close>: the body of the \<open>try\<close> is the request and the subscripts;
  \<open>except Exception\<close> logs and returns the fixed message. The module \<open>openai\<close> is taken
  to be installed, so the \<open>import\<close> before the \<open>try\<close> succeeds.
\<close>

definition ai_suggest_fact_check :: "env \<Rightarrow> ustr \<Rightarrow> world \<Rightarrow> ustr \<times> world" where
  "ai_suggest_fact_check env claim w =
     (let w1 = emit (ChatCompletion (completion_messages claim) 150) w in
      case and_then (chat_completion env claim) completion_content of
        Inr content \<Rightarrow> (AI_PREFIX @ py_format (format_value env) content, w1)
      | Inl e \<Rightarrow> (AI_UNAVAILABLE_TEXT, emit LogError w1))"

section \<open>The claim store\<close>

text \<open>
  \<open>log_claim\<close>: one row is inserted and committed, or the connection, the statement or
  the commit raises and the table is as before.
\<close>

definition log_claim :: "env \<Rightarrow> update \<Rightarrow> ustr \<Rightarrow> world \<Rightarrow> exn option \<times> world" where
  "log_claim env u claim w =
     (let row = \<lparr>row_user_id = effective_user_id u,
                 row_username = effective_user_username u,
                 row_claim = claim\<rparr> in
      if storage_ok env
      then (None, emit (DbInsert row) (w\<lparr>claims_db := claims_db w @ [row]\<rparr>))
      else (Some StorageError, w))"

section \<open>The command and event handlers\<close>

text \<open>The calls to the chat platform (\<open>reply_text\<close>, \<open>answer\<close>) are taken to succeed.\<close>

definition START_TEXT :: ustr where
  "START_TEXT =
     [0x1F916] @ ascii '' *FactCheckMate* at your service!'' @ [10, 10] @
     ascii ''Send a claim using `/factcheck <statement>` to verify.'' @ [10] @
     ascii ''Try: `/factcheck The moon is made of cheese`''"

definition HELP_TEXT :: ustr where
  "HELP_TEXT =
     [0x1F198] @ ascii '' *Help Guide*'' @ [10, 10] @
     ascii ''/factcheck <claim> - Check a claim'' @ [10] @
     ascii ''/quicknews - Trending claims'' @ [10] @
     [0x1F44D, 0x1F44E] @ ascii '' Vote on responses'' @ [10] @
     [0x1F6E1, 0xFE0F] @ ascii '' Auto-check in groups (admin-only)''"

definition USAGE_TEXT :: ustr where
  "USAGE_TEXT = [0x2757] @ ascii '' Usage: /factcheck <your claim>''"

definition AUTO_PREFIX :: ustr where
  "AUTO_PREFIX = [0x1F4E2] @ ascii '' Auto Fact-Check:'' @ [10, 10]"

definition trending :: "ustr list" where
  "trending =
     [[0x1F4F0] @ ascii '' *Claim:* Earth is flat'' @ [10] @
      [0x1F4DD] @ ascii '' *Rating:* False'' @ [10] @
      [0x1F517] @ ascii '' [More](https://en.wikipedia.org/wiki/Spherical_Earth)'',
      [0x1F4F0] @ ascii '' *Claim:* COVID vaccines cause autism'' @ [10] @
      [0x1F4DD] @ ascii '' *Rating:* False'' @ [10] @
      [0x1F517] @ ascii '' [CDC](https://www.cdc.gov)'',
      [0x1F4F0] @ ascii '' *Claim:* Climate change is a hoax'' @ [10] @
      [0x1F4DD] @ ascii '' *Rating:* False'' @ [10] @
      [0x1F517] @ ascii '' [NASA](https://climate.nasa.gov)'']"

definition start :: "update \<Rightarrow> world \<Rightarrow> exn option \<times> world" where
  "start u w = (None, emit (Reply START_TEXT True None False) w)"

definition help_command :: "update \<Rightarrow> world \<Rightarrow> exn option \<times> world" where
  "help_command u w = (None, emit (Reply HELP_TEXT True None False) w)"

text \<open>
  \<open>if not response: response = ai_suggest_fact_check(claim)\<close>, as both \<open>factcheck\<close> and
  \<open>auto_fact_check\<close> have it: \<open>None\<close> and the empty string are the false values.
\<close>

definition or_ai_suggestion :: "env \<Rightarrow> ustr \<Rightarrow> ustr option \<Rightarrow> world \<Rightarrow> ustr \<times> world" where
  "or_ai_suggestion env claim response w =
     (case response of
        None \<Rightarrow> ai_suggest_fact_check env claim w
      | Some s \<Rightarrow> if s = [] then ai_suggest_fact_check env claim w else (s, w))"

text \<open>\<open>claim[:50].replace(" ", "_")\<close>.\<close>

definition claim_id_of :: "ustr \<Rightarrow> ustr" where
  "claim_id_of claim = py_replace 32 95 (take 50 claim)"

definition factcheck :: "env \<Rightarrow> update \<Rightarrow> ustr list \<Rightarrow> world \<Rightarrow> exn option \<times> world" where
  "factcheck env u args w =
     (if args = [] then (None, emit (Reply USAGE_TEXT False None False) w)
      else
        (let claim = py_join (ascii '' '') args in
         case log_claim env u claim w of
           (Some e, w1) \<Rightarrow> (Some e, w1)
         | (None, w1) \<Rightarrow>
             (case query_google_fact_check_api env claim w1 of
                (Inl e, w2) \<Rightarrow> (Some e, w2)
              | (Inr response, w2) \<Rightarrow>
                  (case or_ai_suggestion env claim response w2 of
                     (response', w3) \<Rightarrow>
                       (None, emit (Reply response' True
                                      (Some (create_vote_buttons (claim_id_of claim))) True) w3)))))"

definition quicknews :: "update \<Rightarrow> world \<Rightarrow> exn option \<times> world" where
  "quicknews u w =
     (None, emit (Reply ([0x1F525] @ ascii '' *Trending Fact-Checks:*'' @ [10, 10] @
                         py_join [10, 10] trending) True None False) w)"

definition auto_fact_check :: "env \<Rightarrow> update \<Rightarrow> world \<Rightarrow> exn option \<times> world" where
  "auto_fact_check env u w =
     (if effective_user_id u \<notin> set (ADMIN_IDS env) then (None, w)
      else
        (let text = message_text u in
         if length (py_split text) < 4 then (None, w)
         else
           (case query_google_fact_check_api env text w of
              (Inl e, w1) \<Rightarrow> (Some e, w1)
            | (Inr response, w1) \<Rightarrow>
                (case or_ai_suggestion env text response w1 of
                   (response', w2) \<Rightarrow>
                     (None, emit (Reply (AUTO_PREFIX @ response') True None True) w2)))))"

text \<open>The handlers as \<open>main\<close> registers them: one event, one handler.\<close>

datatype event =
    StartCommand update
  | HelpCommand update
  | FactcheckCommand update "ustr list"
  | QuicknewsCommand update
  | GroupText update
  | VotePress callback_query

fun handle :: "env \<Rightarrow> event \<Rightarrow> world \<Rightarrow> exn option \<times> world" where
  "handle env (StartCommand u) w = start u w"
| "handle env (HelpCommand u) w = help_command u w"
| "handle env (FactcheckCommand u args) w = factcheck env u args w"
| "handle env (QuicknewsCommand u) w = quicknews u w"
| "handle env (GroupText u) w = auto_fact_check env u w"
| "handle env (VotePress q) w = vote_handler q w"

text \<open>The effects a handler added to the trace of the world it started from.\<close>

definition new_effects :: "world \<Rightarrow> exn option \<times> world \<Rightarrow> effect list" where
  "new_effects w r = drop (length (trace w)) (trace (snd r))"

section \<open>Vocabulary of the properties\<close>

text \<open>A request to the completion service, among the effects.\<close>

definition is_completion_call :: "effect \<Rightarrow> bool" where
  "is_completion_call e = (case e of ChatCompletion m n \<Rightarrow> True | _ \<Rightarrow> False)"

text \<open>The body of the \<open>try\<close> in \<open>ai_suggest_fact_check\<close> raises.\<close>

definition advisor_raises :: "env \<Rightarrow> ustr \<Rightarrow> bool" where
  "advisor_raises env claim =
     (case and_then (chat_completion env claim) completion_content of
        Inl e \<Rightarrow> True | Inr c \<Rightarrow> False)"

text \<open>The value of \<open>d.get(k, default)\<close> for the dict with the items \<open>kvs\<close>.\<close>

definition field_or :: "(ustr \<times> json) list \<Rightarrow> ustr \<Rightarrow> json \<Rightarrow> json" where
  "field_or kvs k d = (case map_of kvs k of None \<Rightarrow> d | Some v \<Rightarrow> v)"

text \<open>
  Concrete inputs for the examples: a world with nothing in it, and an environment with
  one admin (1001) in which the storage works or not and the two services give fixed
  answers.
\<close>

definition empty_world :: world where
  "empty_world = \<lparr>claims_db = [], feedback_store = Map.empty, trace = []\<rparr>"

definition example_env :: "bool \<Rightarrow> exn + json \<Rightarrow> exn + json \<Rightarrow> env" where
  "example_env ok search completion =
     \<lparr>ADMIN_IDS = [1001], storage_ok = ok, claims_search = (\<lambda>q. search),
      chat_completion = (\<lambda>q. completion), format_value = (\<lambda>v. ascii ''?'')\<rparr>"

definition example_update :: "int \<Rightarrow> ustr \<Rightarrow> update" where
  "example_update uid text =
     \<lparr>effective_user_id = uid, effective_user_username = Some (ascii ''luna''),
      message_text = text\<rparr>"

text \<open>
  A response of the claim search with two claims; the first has no claimant and its
  review has no link.
\<close>

definition example_response :: json where
  "example_response =
     JObj [(ascii ''claims'',
       JArr [JObj [(ascii ''text'', JStr (ascii ''Earth is flat'')),
                   (ascii ''claimReview'',
                    JArr [JObj [(ascii ''textualRating'', JStr (ascii ''False'')),
                                (ascii ''publisher'', JObj [(ascii ''name'', JStr (ascii ''Snopes''))])]])],
             JObj [(ascii ''text'', JStr (ascii ''The moon is made of cheese''))]])]"

section \<open>Properties of the feedback tracker\<close>

subsection \<open>Splitting the callback payload\<close>

lemma split_sep_length: "length (split_sep sep cur s) = Suc (count_list s sep)"
  by (induction s arbitrary: cur) auto

lemma split_sep_none: "sep \<notin> set s \<Longrightarrow> split_sep sep cur s = [cur @ s]"
  by (induction s arbitrary: cur) auto

lemma split_sep_first: "sep \<notin> set a \<Longrightarrow> split_sep sep cur (a @ sep # b) = (cur @ a) # split_sep sep [] b"
  by (induction a arbitrary: cur) auto

lemma split_sep_one:
  "sep \<notin> set a \<Longrightarrow> sep \<notin> set b \<Longrightarrow> py_split_on sep (a @ sep # b) = [a, b]"
  by (simp add: py_split_on_def split_sep_first split_sep_none)

lemma list_length_two: "length xs = 2 \<Longrightarrow> \<exists>a b. xs = [a, b]"
  by (cases xs; cases "tl xs"; cases "tl (tl xs)") auto

lemma case_not_two:
  "length xs \<noteq> 2 \<Longrightarrow> (case xs of [a, b] \<Rightarrow> f a b | _ \<Rightarrow> g) = g"
  by (auto split: list.splits)

lemma vote_handler_raises_iff:
  "fst (vote_handler q w) = (if count_list (query_data q) 58 = 1 then None else Some ValueError)"
proof -
  let ?ps = "py_split_on 58 (query_data q)"
  have len: "length ?ps = Suc (count_list (query_data q) 58)"
    by (simp add: py_split_on_def split_sep_length)
  show ?thesis
  proof (cases "count_list (query_data q) 58 = 1")
    case True
    then have "length ?ps = 2" using len by simp
    from list_length_two [OF this] obtain a b where "?ps = [a, b]" by blast
    then show ?thesis using True
      by (simp add: vote_handler_def Let_def split: option.splits)
  next
    case False
    then have "length ?ps \<noteq> 2" using len by simp
    then show ?thesis using False
      by (simp add: vote_handler_def Let_def case_not_two)
  qed
qed

lemma dec_digits_nonempty: "dec_digits n \<noteq> []"
  by (subst dec_digits.simps) simp

lemma dec_digits_range: "d \<in> set (dec_digits n) \<Longrightarrow> 48 \<le> d \<and> d \<le> 57"
proof (induction n rule: dec_digits.induct)
  case (1 n)
  then show ?case
    by (subst (asm) (2) dec_digits.simps) (auto split: if_splits)
qed

lemma dec_digits_inject: "dec_digits n = dec_digits m \<Longrightarrow> n = m"
proof (induction n arbitrary: m rule: dec_digits.induct)
  case (1 n)
  show ?case
  proof (cases "n < 10")
    case True
    show ?thesis
    proof (cases "m < 10")
      case True
      with \<open>n < 10\<close> "1.prems" show ?thesis by (simp add: dec_digits.simps)
    next
      case False
      have "dec_digits n = [48 + n]" using \<open>n < 10\<close> by (simp add: dec_digits.simps)
      moreover have "dec_digits m = dec_digits (m div 10) @ [48 + m mod 10]"
        using False by (subst dec_digits.simps) simp
      ultimately show ?thesis using "1.prems" dec_digits_nonempty [of "m div 10"] by simp
    qed
  next
    case False
    have n: "dec_digits n = dec_digits (n div 10) @ [48 + n mod 10]"
      using False by (subst dec_digits.simps) simp
    show ?thesis
    proof (cases "m < 10")
      case True
      then have "dec_digits m = [48 + m]" by (simp add: dec_digits.simps)
      then show ?thesis using n "1.prems" dec_digits_nonempty [of "n div 10"] by simp
    next
      case mf: False
      have m: "dec_digits m = dec_digits (m div 10) @ [48 + m mod 10]"
        using mf by (subst dec_digits.simps) simp
      from n m "1.prems" have a: "dec_digits (n div 10) = dec_digits (m div 10)"
        and b: "n mod 10 = m mod 10" by simp_all
      from "1.IH" [OF False a] have "n div 10 = m div 10" .
      with b show ?thesis by (metis div_mult_mod_eq)
    qed
  qed
qed

lemma py_str_int_inject: "py_str_int i = py_str_int j \<Longrightarrow> i = j"
proof (cases "i < 0"; cases "j < 0")
  assume "i < 0" "j < 0" "py_str_int i = py_str_int j"
  then have "nat (- i) = nat (- j)" by (simp add: py_str_int_def dec_digits_inject)
  with \<open>i < 0\<close> \<open>j < 0\<close> show ?thesis by simp
next
  assume a: "i < 0" "\<not> j < 0" "py_str_int i = py_str_int j"
  then have "45 \<in> set (dec_digits (nat j))"
    by (metis list.set_intros(1) py_str_int_def)
  then show ?thesis using dec_digits_range by fastforce
next
  assume a: "\<not> i < 0" "j < 0" "py_str_int i = py_str_int j"
  then have "45 \<in> set (dec_digits (nat i))"
    by (metis list.set_intros(1) py_str_int_def)
  then show ?thesis using dec_digits_range by fastforce
next
  assume "\<not> i < 0" "\<not> j < 0" "py_str_int i = py_str_int j"
  then have "nat i = nat j" by (simp add: py_str_int_def dec_digits_inject)
  with \<open>\<not> i < 0\<close> \<open>\<not> j < 0\<close> show ?thesis by simp
qed

lemma py_str_int_no_underscore: "95 \<notin> set (py_str_int i)"
proof
  assume "95 \<in> set (py_str_int i)"
  then have "95 \<in> set (dec_digits (nat (- i))) \<or> 95 \<in> set (dec_digits (nat i))"
    by (auto simp: py_str_int_def split: if_splits)
  then show False using dec_digits_range by fastforce
qed

lemma append_sep_inject:
  assumes "a @ sep # s = b @ sep # t" "sep \<notin> set s" "sep \<notin> set t"
  shows "a = b \<and> s = t"
proof -
  have "takeWhile (\<lambda>c. c \<noteq> sep) (rev (a @ sep # s)) = rev s"
    using assms(2) by (auto simp: takeWhile_tail)
  moreover have "takeWhile (\<lambda>c. c \<noteq> sep) (rev (b @ sep # t)) = rev t"
    using assms(3) by (auto simp: takeWhile_tail)
  ultimately have "s = t" using assms(1) by simp
  with assms(1) show ?thesis by simp
qed

lemma vote_key_inject: "vote_key c u = vote_key c' u' \<longleftrightarrow> c = c' \<and> u = u'"
proof
  assume "vote_key c u = vote_key c' u'"
  then have "c @ 95 # py_str_int u = c' @ 95 # py_str_int u'"
    by (simp add: vote_key_def ascii_def)
  from append_sep_inject [OF this py_str_int_no_underscore py_str_int_no_underscore]
  show "c = c' \<and> u = u'" using py_str_int_inject by blast
qed simp

lemma vote_handler_first_vote:
  assumes "58 \<notin> set vt" and "58 \<notin> set cid"
    and "feedback_store w (vote_key cid uid) = None"
  shows "vote_handler \<lparr>query_data = vt @ 58 # cid, from_user_id = uid\<rparr> w =
           (None, emit (Reply THANKS_TEXT False None False)
                    ((emit AnswerCallback w)
                       \<lparr>feedback_store := (feedback_store w)(vote_key cid uid \<mapsto> vt)\<rparr>))"
  using assms by (simp add: vote_handler_def split_sep_one emit_def)

lemma vote_handler_repeat_vote:
  assumes "58 \<notin> set vt" and "58 \<notin> set cid"
    and "feedback_store w (vote_key cid uid) = Some v"
  shows "vote_handler \<lparr>query_data = vt @ 58 # cid, from_user_id = uid\<rparr> w =
           (None, emit (Reply ALREADY_VOTED_TEXT False None False) (emit AnswerCallback w))"
  using assms by (simp add: vote_handler_def split_sep_one emit_def)

lemma vote_handler_other_key:
  assumes "from_user_id q \<noteq> uid"
  shows "feedback_store (snd (vote_handler q w)) (vote_key cid uid) =
         feedback_store w (vote_key cid uid)"
proof (cases "\<exists>a b. py_split_on 58 (query_data q) = [a, b]")
  case True
  then obtain a b where "py_split_on 58 (query_data q) = [a, b]" by blast
  then show ?thesis using assms
    by (simp add: vote_handler_def Let_def emit_def vote_key_inject split: option.splits)
next
  case False
  then have "length (py_split_on 58 (query_data q)) \<noteq> 2"
    using list_length_two by blast
  then show ?thesis by (simp add: vote_handler_def emit_def case_not_two)
qed

subsection \<open>Payloads whose claim identifier contains a colon\<close>

text \<open>
  C4 (the vote handler never raises, also when the claim identifier contains a colon).
  The handler raises exactly when the payload does not have exactly one colon
  (\<open>vote_handler_raises_iff\<close>). The theorem follows one request: \<open>/factcheck Time: 5pm\<close>
  gives the claim identifier \<open>Time:_5pm\<close>, the buttons carry \<open>vote_yes:Time:_5pm\<close> and
  \<open>vote_no:Time:_5pm\<close>, and pressing the first one raises \<open>ValueError\<close> in every state.
\<close>

theorem vote_handler_raises_on_colon_in_claim_id:
  "create_vote_buttons (claim_id_of (py_join (ascii '' '') [ascii ''Time:'', ascii ''5pm''])) =
     [[([0x1F44D] @ ascii '' Helpful'', ascii ''vote_yes:Time:_5pm''),
       ([0x1F44E] @ ascii '' Not Helpful'', ascii ''vote_no:Time:_5pm'')]] \<and>
   fst (vote_handler \<lparr>query_data = ascii ''vote_yes:Time:_5pm'', from_user_id = 42\<rparr> w) =
     Some ValueError"
  by (simp add: create_vote_buttons_def claim_id_of_def py_replace_def vote_handler_def
        py_split_on_def ascii_def)

text \<open>
  C1 (the first vote of a pair is accepted and stored, later ones are rejected and change
  nothing). For a payload with one colon this is what the handler does
  (\<open>vote_handler_first_vote\<close>, \<open>vote_handler_repeat_vote\<close>, and \<open>vote_key_inject\<close> for
  the pairs being kept apart). For the pair (\<open>Ratio_3:1\<close>, 7) it is not: on the empty
  store the first press raises \<open>ValueError\<close>, only the callback is answered, and no vote
  value is stored.
\<close>

theorem first_vote_with_colon_not_accepted:
  "vote_handler \<lparr>query_data = ascii ''vote_yes:Ratio_3:1'', from_user_id = 7\<rparr>
     \<lparr>claims_db = [], feedback_store = Map.empty, trace = []\<rparr> =
   (Some ValueError, \<lparr>claims_db = [], feedback_store = Map.empty, trace = [AnswerCallback]\<rparr>)"
  by (simp add: vote_handler_def py_split_on_def ascii_def emit_def)

text \<open>
  C10 (two voters on one claim identifier are each accepted). A vote never touches the
  key of another voter (\<open>vote_handler_other_key\<close>), so no voter makes another one a
  duplicate. But for the identifier \<open>Score_was_2:1\<close> neither voter 1 nor voter 2 is
  accepted: both first presses raise \<open>ValueError\<close>.
\<close>

theorem two_voters_with_colon_both_raise:
  "fst (vote_handler \<lparr>query_data = ascii ''vote_yes:Score_was_2:1'', from_user_id = 1\<rparr>
          \<lparr>claims_db = [], feedback_store = Map.empty, trace = []\<rparr>) = Some ValueError \<and>
   fst (vote_handler \<lparr>query_data = ascii ''vote_yes:Score_was_2:1'', from_user_id = 2\<rparr>
          (snd (vote_handler \<lparr>query_data = ascii ''vote_yes:Score_was_2:1'', from_user_id = 1\<rparr>
                  \<lparr>claims_db = [], feedback_store = Map.empty, trace = []\<rparr>))) = Some ValueError"
  by (simp add: vote_handler_def py_split_on_def ascii_def emit_def)

section \<open>Properties of the claim store\<close>

lemma claims_db_emit: "claims_db (emit e w) = claims_db w"
  by (simp add: emit_def)

lemma ai_claims_db: "claims_db (snd (ai_suggest_fact_check env c w)) = claims_db w"
  by (simp add: ai_suggest_fact_check_def Let_def claims_db_emit split: sum.splits)

lemma or_ai_claims_db: "claims_db (snd (or_ai_suggestion env c r w)) = claims_db w"
  by (simp add: or_ai_suggestion_def ai_claims_db split: option.splits)

lemma or_ai_claims_db_D: "or_ai_suggestion env c r w = (x, w') \<Longrightarrow> claims_db w' = claims_db w"
  using or_ai_claims_db [of env c r w] by simp

lemma auto_claims_db: "claims_db (snd (auto_fact_check env u w)) = claims_db w"
  by (auto simp: auto_fact_check_def Let_def query_google_fact_check_api_def claims_db_emit
      split: sum.splits prod.splits dest: or_ai_claims_db_D)

lemma factcheck_claims_db:
  "claims_db (snd (factcheck env u args w)) =
     (if args \<noteq> [] \<and> storage_ok env
      then claims_db w @ [\<lparr>row_user_id = effective_user_id u,
                            row_username = effective_user_username u,
                            row_claim = py_join (ascii '' '') args\<rparr>]
      else claims_db w)"
  by (auto simp: factcheck_def log_claim_def Let_def query_google_fact_check_api_def
        claims_db_emit
      split: sum.splits prod.splits dest: or_ai_claims_db_D)

lemma vote_claims_db: "claims_db (snd (vote_handler q w)) = claims_db w"
  by (simp add: vote_handler_def Let_def claims_db_emit split: list.splits option.splits)

text \<open>
  C2, as the code has it. \<open>/factcheck\<close> with at least one argument appends one row (the
  sender's id and name, the joined arguments) when the write succeeds. A group message
  appends nothing, whoever sends it and however long it is: \<open>auto_fact_check\<close> does not
  call \<open>log_claim\<close>. No handler changes or removes a row: the table before an event is a
  prefix of the table after it.
\<close>

theorem claim_rows_appended_never_changed:
  "(args \<noteq> [] \<and> storage_ok env \<longrightarrow>
      claims_db (snd (factcheck env u args w)) =
        claims_db w @ [\<lparr>row_user_id = effective_user_id u,
                         row_username = effective_user_username u,
                         row_claim = py_join (ascii '' '') args\<rparr>]) \<and>
   claims_db (snd (auto_fact_check env u' w)) = claims_db w \<and>
   prefix (claims_db w) (claims_db (snd (handle env ev w)))"
proof -
  have "prefix (claims_db w) (claims_db (snd (handle env ev w)))"
    by (cases ev)
       (simp_all add: start_def help_command_def quicknews_def claims_db_emit auto_claims_db
          factcheck_claims_db vote_claims_db)
  then show ?thesis by (simp add: factcheck_claims_db auto_claims_db)
qed

text \<open>C2, witness: \<open>/factcheck Earth is flat\<close> from user 7 on the empty table.\<close>

theorem claim_rows_appended_never_changed_witness:
  "claims_db (snd (factcheck (example_env True (Inr (JObj [])) (Inl CompletionError))
       (example_update 7 []) [ascii ''Earth'', ascii ''is'', ascii ''flat''] empty_world)) =
     [\<lparr>row_user_id = 7, row_username = Some (ascii ''luna''), row_claim = ascii ''Earth is flat''\<rparr>]"
proof -
  have e: "py_join (ascii '' '') [ascii ''Earth'', ascii ''is'', ascii ''flat''] = ascii ''Earth is flat''"
    by (simp add: ascii_def)
  note th = claim_rows_appended_never_changed [of "[ascii ''Earth'', ascii ''is'', ascii ''flat'']"
      "example_env True (Inr (JObj [])) (Inl CompletionError)" "example_update 7 []" empty_world]
  show ?thesis using th unfolding e
    by (simp add: example_env_def example_update_def empty_world_def)
qed

text \<open>
  C2, counterexample to the claim as stated: admin 1001 sends the four-word group message
  \<open>Earth is really flat\<close>; the auto fact-check runs to its end and the table stays empty.
\<close>

theorem auto_fact_check_appends_no_row:
  "effective_user_id (example_update 1001 (ascii ''Earth is really flat'')) \<in>
     set (ADMIN_IDS (example_env True (Inr (JObj [])) (Inl CompletionError))) \<and>
   4 \<le> length (py_split (message_text (example_update 1001 (ascii ''Earth is really flat'')))) \<and>
   fst (auto_fact_check (example_env True (Inr (JObj [])) (Inl CompletionError))
          (example_update 1001 (ascii ''Earth is really flat'')) empty_world) = None \<and>
   claims_db (snd (auto_fact_check (example_env True (Inr (JObj [])) (Inl CompletionError))
          (example_update 1001 (ascii ''Earth is really flat'')) empty_world)) = []"
  by (simp add: auto_fact_check_def example_env_def example_update_def empty_world_def
        py_split_def ascii_def is_space_def query_google_fact_check_api_def and_then_def
        or_ai_suggestion_def ai_suggest_fact_check_def emit_def Let_def)

text \<open>
  C6 (the claim is logged before the lookup; a failed write ends the request). With at
  least one argument: when the storage accepts the write, the first two effects are the
  insert and then the search request, and the row is in the table; when it does not,
  \<open>StorageError\<close> leaves the handler and nothing else has happened, no request, no
  fallback and no reply.
\<close>

theorem factcheck_logs_before_lookup:
  assumes "args \<noteq> []"
  shows "(if storage_ok env
          then take 2 (new_effects w (factcheck env u args w)) =
                 [DbInsert \<lparr>row_user_id = effective_user_id u,
                            row_username = effective_user_username u,
                            row_claim = py_join (ascii '' '') args\<rparr>,
                  HttpGetClaimsSearch (py_join (ascii '' '') args)] \<and>
               claims_db (snd (factcheck env u args w)) =
                 claims_db w @ [\<lparr>row_user_id = effective_user_id u,
                            row_username = effective_user_username u,
                            row_claim = py_join (ascii '' '') args\<rparr>]
          else factcheck env u args w = (Some StorageError, w) \<and>
               new_effects w (factcheck env u args w) = [])"
  using assms
  by (simp add: factcheck_def log_claim_def Let_def new_effects_def
        query_google_fact_check_api_def or_ai_suggestion_def ai_suggest_fact_check_def emit_def
      split: sum.splits option.splits prod.splits)

text \<open>C6, witness: the same request with the storage down and with the storage up.\<close>

theorem factcheck_logs_before_lookup_witness:
  "factcheck (example_env False (Inr (JObj [])) (Inl CompletionError))
     (example_update 7 []) [ascii ''Earth'', ascii ''is'', ascii ''flat''] empty_world =
     (Some StorageError, empty_world) \<and>
   take 2 (new_effects empty_world
     (factcheck (example_env True (Inr (JObj [])) (Inl CompletionError))
        (example_update 7 []) [ascii ''Earth'', ascii ''is'', ascii ''flat''] empty_world)) =
     [DbInsert \<lparr>row_user_id = 7, row_username = Some (ascii ''luna''),
                row_claim = ascii ''Earth is flat''\<rparr>,
      HttpGetClaimsSearch (ascii ''Earth is flat'')]"
proof -
  let ?args = "[ascii ''Earth'', ascii ''is'', ascii ''flat'']"
  have a: "?args \<noteq> []" by simp
  have e: "py_join (ascii '' '') ?args = ascii ''Earth is flat''"
    by (simp add: ascii_def)
  note down = factcheck_logs_before_lookup [OF a,
      of "example_env False (Inr (JObj [])) (Inl CompletionError)" empty_world "example_update 7 []"]
  note up = factcheck_logs_before_lookup [OF a,
      of "example_env True (Inr (JObj [])) (Inl CompletionError)" empty_world "example_update 7 []"]
  show ?thesis using down up unfolding e
    by (simp add: example_env_def example_update_def)
qed

section \<open>Properties of the fact-check lookup\<close>

lemma py_get_obj: "py_get (JObj kvs) k d = Inr (field_or kvs k d)"
  by (simp add: field_or_def)

text \<open>
  C3, as the code has it. For a response that is a JSON object: the lookup returns \<open>None\<close>
  exactly when the \<open>claims\<close> field is absent or a false value (\<open>null\<close>, the empty list);
  when it is a list with a first element, the result is what \<open>first_claim_summary\<close> makes
  of that element alone; and for a claim object whose review list starts with an object
  the summary holds the claim text, claimant and publisher name with \<open>Unknown\<close> for an
  absent one, the rating with \<open>Unrated\<close>, and the review link with the empty string.
\<close>

theorem lookup_none_or_first_claim:
  assumes "claims_search env q = Inr (JObj kvs)"
  shows "(fst (query_google_fact_check_api env q w) = Inr None) =
           (\<not> py_truthy (field_or kvs (ascii ''claims'') JNull)) \<and>
         (field_or kvs (ascii ''claims'') JNull = JArr (c # rest) \<longrightarrow>
            fst (query_google_fact_check_api env q w) =
              and_then (first_claim_summary (format_value env) c) (\<lambda>s. Inr (Some s))) \<and>
         (field_or cf (ascii ''claimReview'') (JArr [JObj []]) = JArr (JObj rf # others) \<and>
          field_or rf (ascii ''publisher'') (JObj []) = JObj pf \<longrightarrow>
            first_claim_summary fmt (JObj cf) =
              Inr ([0x1F50E] @ ascii '' *Claim:* '' @
                     py_format fmt (field_or cf (ascii ''text'') (JStr (ascii ''Unknown''))) @ [10] @
                   [0x1F464] @ ascii '' *Source:* '' @
                     py_format fmt (field_or cf (ascii ''claimant'') (JStr (ascii ''Unknown''))) @ [10] @
                   [0x1F4DD] @ ascii '' *Rating:* '' @
                     py_format fmt (field_or rf (ascii ''textualRating'') (JStr (ascii ''Unrated''))) @ [10] @
                   [0x1F3E2] @ ascii '' *Publisher:* '' @
                     py_format fmt (field_or pf (ascii ''name'') (JStr (ascii ''Unknown''))) @ [10] @
                   [0x1F517] @ ascii '' [Read more]('' @
                     py_format fmt (field_or rf (ascii ''url'') (JStr [])) @ ascii '')''))"
proof (intro conjI impI)
  show "(fst (query_google_fact_check_api env q w) = Inr None) =
           (\<not> py_truthy (field_or kvs (ascii ''claims'') JNull))"
    using assms
    by (simp add: query_google_fact_check_api_def and_then_def py_get_obj del: py_get.simps split: sum.splits)
next
  assume "field_or kvs (ascii ''claims'') JNull = JArr (c # rest)"
  then show "fst (query_google_fact_check_api env q w) =
              and_then (first_claim_summary (format_value env) c) (\<lambda>s. Inr (Some s))"
    using assms by (simp add: query_google_fact_check_api_def and_then_def py_get_obj del: py_get.simps)
next
  assume "field_or cf (ascii ''claimReview'') (JArr [JObj []]) = JArr (JObj rf # others) \<and>
          field_or rf (ascii ''publisher'') (JObj []) = JObj pf"
  then show "first_claim_summary fmt (JObj cf) =
              Inr ([0x1F50E] @ ascii '' *Claim:* '' @
                     py_format fmt (field_or cf (ascii ''text'') (JStr (ascii ''Unknown''))) @ [10] @
                   [0x1F464] @ ascii '' *Source:* '' @
                     py_format fmt (field_or cf (ascii ''claimant'') (JStr (ascii ''Unknown''))) @ [10] @
                   [0x1F4DD] @ ascii '' *Rating:* '' @
                     py_format fmt (field_or rf (ascii ''textualRating'') (JStr (ascii ''Unrated''))) @ [10] @
                   [0x1F3E2] @ ascii '' *Publisher:* '' @
                     py_format fmt (field_or pf (ascii ''name'') (JStr (ascii ''Unknown''))) @ [10] @
                   [0x1F517] @ ascii '' [Read more]('' @
                     py_format fmt (field_or rf (ascii ''url'') (JStr [])) @ ascii '')'')"
    by (simp add: first_claim_summary_def and_then_def py_get_obj del: py_get.simps)
qed

text \<open>
  C3, witness: the response \<open>example_response\<close>; the second claim does not show, the absent
  claimant is \<open>Unknown\<close> and the absent link is empty.
\<close>

theorem lookup_none_or_first_claim_witness:
  "fst (query_google_fact_check_api (example_env True (Inr example_response) (Inl CompletionError))
          (ascii ''Earth is flat'') empty_world) =
     Inr (Some ([0x1F50E] @ ascii '' *Claim:* Earth is flat'' @ [10] @
                [0x1F464] @ ascii '' *Source:* Unknown'' @ [10] @
                [0x1F4DD] @ ascii '' *Rating:* False'' @ [10] @
                [0x1F3E2] @ ascii '' *Publisher:* Snopes'' @ [10] @
                [0x1F517] @ ascii '' [Read more]()''))"
proof -
  let ?env = "example_env True (Inr example_response) (Inl CompletionError)"
  let ?cf = "[(ascii ''text'', JStr (ascii ''Earth is flat'')),
                   (ascii ''claimReview'',
                    JArr [JObj [(ascii ''textualRating'', JStr (ascii ''False'')),
                                (ascii ''publisher'', JObj [(ascii ''name'', JStr (ascii ''Snopes''))])]])]"
  let ?rf = "[(ascii ''textualRating'', JStr (ascii ''False'')),
                                (ascii ''publisher'', JObj [(ascii ''name'', JStr (ascii ''Snopes''))])]"
  let ?kvs = "[(ascii ''claims'',
       JArr [JObj ?cf, JObj [(ascii ''text'', JStr (ascii ''The moon is made of cheese''))]])]"
  have a: "claims_search ?env (ascii ''Earth is flat'') = Inr (JObj ?kvs)"
    by (simp add: example_env_def example_response_def)
  note th = lookup_none_or_first_claim [OF a, of empty_world "JObj ?cf"
      "[JObj [(ascii ''text'', JStr (ascii ''The moon is made of cheese''))]]"
      ?cf ?rf "[]" "[(ascii ''name'', JStr (ascii ''Snopes''))]" "format_value ?env"]
  show ?thesis using th
    by (simp add: field_or_def ascii_def and_then_def)
qed

text \<open>
  C3, counterexample to the claim as stated: for the response \<open>{"claims": [{}]}\<close> the link
  in the result is empty, neither \<open>Unknown\<close> nor \<open>Unrated\<close>.
\<close>

theorem absent_review_link_is_empty:
  "fst (query_google_fact_check_api
          (example_env True (Inr (JObj [(ascii ''claims'', JArr [JObj []])])) (Inl CompletionError))
          (ascii ''Earth is flat'') empty_world) =
     Inr (Some ([0x1F50E] @ ascii '' *Claim:* Unknown'' @ [10] @
                [0x1F464] @ ascii '' *Source:* Unknown'' @ [10] @
                [0x1F4DD] @ ascii '' *Rating:* Unrated'' @ [10] @
                [0x1F3E2] @ ascii '' *Publisher:* Unknown'' @ [10] @
                [0x1F517] @ ascii '' [Read more]()'')) \<and>
   fst (query_google_fact_check_api
          (example_env True (Inr (JObj [(ascii ''claims'', JArr [JObj []])])) (Inl CompletionError))
          (ascii ''Earth is flat'') empty_world) \<noteq>
     Inr (Some ([0x1F50E] @ ascii '' *Claim:* Unknown'' @ [10] @
                [0x1F464] @ ascii '' *Source:* Unknown'' @ [10] @
                [0x1F4DD] @ ascii '' *Rating:* Unrated'' @ [10] @
                [0x1F3E2] @ ascii '' *Publisher:* Unknown'' @ [10] @
                [0x1F517] @ ascii '' [Read more](Unknown)'')) \<and>
   fst (query_google_fact_check_api
          (example_env True (Inr (JObj [(ascii ''claims'', JArr [JObj []])])) (Inl CompletionError))
          (ascii ''Earth is flat'') empty_world) \<noteq>
     Inr (Some ([0x1F50E] @ ascii '' *Claim:* Unknown'' @ [10] @
                [0x1F464] @ ascii '' *Source:* Unknown'' @ [10] @
                [0x1F4DD] @ ascii '' *Rating:* Unrated'' @ [10] @
                [0x1F3E2] @ ascii '' *Publisher:* Unknown'' @ [10] @
                [0x1F517] @ ascii '' [Read more](Unrated)''))"
  by (simp add: query_google_fact_check_api_def example_env_def and_then_def
        first_claim_summary_def ascii_def)

text \<open>A review list that is present and empty raises, where the absent one has a default.\<close>

lemma empty_review_list_raises:
  "fst (query_google_fact_check_api
          (example_env True (Inr (JObj [(ascii ''claims'', JArr [JObj [(ascii ''claimReview'', JArr [])]])])) (Inl CompletionError))
          q w) = Inl IndexError"
  by (simp add: query_google_fact_check_api_def example_env_def and_then_def
        first_claim_summary_def ascii_def)

section \<open>Properties of the AI fallback\<close>

lemma ai_unavailable:
  "advisor_raises env c \<Longrightarrow> fst (ai_suggest_fact_check env c w) = AI_UNAVAILABLE_TEXT"
  by (simp add: ai_suggest_fact_check_def advisor_raises_def Let_def split: sum.splits)

text \<open>
  C5 (an empty lookup gives one call of the advisor, and its output is what is sent). In
  \<open>/factcheck\<close> with arguments, a working storage and a lookup that returns \<open>None\<close>: the
  handler raises nothing; its effects are the insert, the search request, one completion
  request, the error log when the advisor's \<open>try\<close> raised, and the reply, whose text is
  what \<open>ai_suggest_fact_check\<close> returned; and that is the fixed unavailability message
  when the \<open>try\<close> raised.
\<close>

theorem factcheck_fallback_invoked_once:
  assumes "args \<noteq> []" and "storage_ok env"
    and "fst (query_google_fact_check_api env (py_join (ascii '' '') args) w0) = Inr None"
  shows "fst (factcheck env u args w) = None \<and>
     new_effects w (factcheck env u args w) =
       [DbInsert \<lparr>row_user_id = effective_user_id u,
                  row_username = effective_user_username u,
                  row_claim = py_join (ascii '' '') args\<rparr>,
        HttpGetClaimsSearch (py_join (ascii '' '') args),
        ChatCompletion (completion_messages (py_join (ascii '' '') args)) 150] @
       (if advisor_raises env (py_join (ascii '' '') args) then [LogError] else []) @
       [Reply (fst (ai_suggest_fact_check env (py_join (ascii '' '') args) w0)) True
          (Some (create_vote_buttons (claim_id_of (py_join (ascii '' '') args)))) True] \<and>
     length (filter is_completion_call (new_effects w (factcheck env u args w))) = 1 \<and>
     (advisor_raises env (py_join (ascii '' '') args) \<longrightarrow>
        fst (ai_suggest_fact_check env (py_join (ascii '' '') args) w0) = AI_UNAVAILABLE_TEXT)"
  using assms
  by (simp add: factcheck_def log_claim_def Let_def new_effects_def
        query_google_fact_check_api_def or_ai_suggestion_def ai_suggest_fact_check_def emit_def
        advisor_raises_def is_completion_call_def
      split: sum.splits option.splits prod.splits)

text \<open>C5, witness: the search finds nothing and the completion service is down.\<close>

theorem factcheck_fallback_invoked_once_witness:
  "new_effects empty_world
     (factcheck (example_env True (Inr (JObj [])) (Inl CompletionError))
        (example_update 7 []) [ascii ''Earth'', ascii ''is'', ascii ''flat''] empty_world) =
     [DbInsert \<lparr>row_user_id = 7, row_username = Some (ascii ''luna''),
                row_claim = ascii ''Earth is flat''\<rparr>,
      HttpGetClaimsSearch (ascii ''Earth is flat''),
      ChatCompletion (completion_messages (ascii ''Earth is flat'')) 150,
      LogError,
      Reply AI_UNAVAILABLE_TEXT True (Some (create_vote_buttons (ascii ''Earth_is_flat''))) True]"
proof -
  let ?env = "example_env True (Inr (JObj [])) (Inl CompletionError)"
  let ?args = "[ascii ''Earth'', ascii ''is'', ascii ''flat'']"
  have a: "?args \<noteq> []" by simp
  have b: "storage_ok ?env" by (simp add: example_env_def)
  have c: "fst (query_google_fact_check_api ?env (py_join (ascii '' '') ?args) empty_world) = Inr None"
    by (simp add: query_google_fact_check_api_def example_env_def and_then_def)
  have d: "advisor_raises ?env (py_join (ascii '' '') ?args)"
    by (simp add: advisor_raises_def example_env_def and_then_def)
  have e: "py_join (ascii '' '') ?args = ascii ''Earth is flat''"
    by (simp add: ascii_def)
  have f: "claim_id_of (ascii ''Earth is flat'') = ascii ''Earth_is_flat''"
    by (simp add: claim_id_of_def py_replace_def ascii_def)
  note th = factcheck_fallback_invoked_once [OF a b c, of "example_update 7 []" empty_world]
  show ?thesis using th d unfolding e f by (simp add: example_update_def)
qed

section \<open>Properties of the handlers\<close>

text \<open>
  C7 (the auto fact-check runs exactly for admins' messages of four words or more). When
  the sender is in \<open>ADMIN_IDS\<close> and the text splits into at least four words, the handler
  runs the whole path, and its effects are these and no others: the search request; if
  the lookup raises, that exception leaves the handler; if the lookup returns nothing,
  one completion request, the error log when the advisor's \<open>try\<close> raised, and the reply
  with the header and what \<open>ai_suggest_fact_check\<close> returned; if the lookup returns a
  summary, the reply with the header and the summary, and no completion request. The
  table and the feedback store are as before. In every other case the handler returns at
  once: no effect, no change.
\<close>

theorem auto_fact_check_trigger:
  "(if effective_user_id u \<in> set (ADMIN_IDS env) \<and> 4 \<le> length (py_split (message_text u))
    then take 1 (new_effects w (auto_fact_check env u w)) = [HttpGetClaimsSearch (message_text u)] \<and>
         (case fst (query_google_fact_check_api env (message_text u) w) of
            Inl e \<Rightarrow>
              auto_fact_check env u w = (Some e, emit (HttpGetClaimsSearch (message_text u)) w) \<and>
              new_effects w (auto_fact_check env u w) = [HttpGetClaimsSearch (message_text u)]
          | Inr r \<Rightarrow>
              fst (auto_fact_check env u w) = None \<and>
              last (new_effects w (auto_fact_check env u w)) =
                Reply (AUTO_PREFIX @ fst (or_ai_suggestion env (message_text u) r w)) True None True \<and>
              new_effects w (auto_fact_check env u w) =
                (if r = None \<or> r = Some []
                 then [HttpGetClaimsSearch (message_text u),
                       ChatCompletion (completion_messages (message_text u)) 150] @
                      (if advisor_raises env (message_text u) then [LogError] else []) @
                      [Reply (AUTO_PREFIX @ fst (ai_suggest_fact_check env (message_text u) w))
                         True None True]
                 else [HttpGetClaimsSearch (message_text u),
                       Reply (AUTO_PREFIX @ the r) True None True]) \<and>
              length (filter is_completion_call (new_effects w (auto_fact_check env u w))) =
                (if r = None \<or> r = Some [] then 1 else 0) \<and>
              snd (auto_fact_check env u w) =
                w\<lparr>trace := trace w @ new_effects w (auto_fact_check env u w)\<rparr>)
    else auto_fact_check env u w = (None, w) \<and> new_effects w (auto_fact_check env u w) = [])"
  by (simp add: auto_fact_check_def Let_def new_effects_def
        query_google_fact_check_api_def or_ai_suggestion_def ai_suggest_fact_check_def emit_def
        advisor_raises_def is_completion_call_def
      split: sum.splits option.splits prod.splits)

text \<open>
  C7, witness: an admin with four words when the search finds nothing and the completion
  service is down (request, completion request, error log, reply), the same message when
  the search finds a claim (request and reply only), another user with the same four
  words, and the admin with three words.
\<close>

theorem auto_fact_check_trigger_witness:
  "new_effects empty_world
       (auto_fact_check (example_env True (Inr (JObj [])) (Inl CompletionError))
          (example_update 1001 (ascii ''Earth is really flat'')) empty_world) =
     [HttpGetClaimsSearch (ascii ''Earth is really flat''),
      ChatCompletion (completion_messages (ascii ''Earth is really flat'')) 150,
      LogError,
      Reply (AUTO_PREFIX @ AI_UNAVAILABLE_TEXT) True None True] \<and>
   new_effects empty_world
       (auto_fact_check (example_env True (Inr example_response) (Inl CompletionError))
          (example_update 1001 (ascii ''Earth is really flat'')) empty_world) =
     [HttpGetClaimsSearch (ascii ''Earth is really flat''),
      Reply (AUTO_PREFIX @
             [0x1F50E] @ ascii '' *Claim:* Earth is flat'' @ [10] @
             [0x1F464] @ ascii '' *Source:* Unknown'' @ [10] @
             [0x1F4DD] @ ascii '' *Rating:* False'' @ [10] @
             [0x1F3E2] @ ascii '' *Publisher:* Snopes'' @ [10] @
             [0x1F517] @ ascii '' [Read more]()'') True None True] \<and>
   auto_fact_check (example_env True (Inr (JObj [])) (Inl CompletionError))
     (example_update 1002 (ascii ''Earth is really flat'')) empty_world = (None, empty_world) \<and>
   auto_fact_check (example_env True (Inr (JObj [])) (Inl CompletionError))
     (example_update 1001 (ascii ''Earth is flat'')) empty_world = (None, empty_world)"
proof -
  let ?down = "example_env True (Inr (JObj [])) (Inl CompletionError)"
  let ?found = "example_env True (Inr example_response) (Inl CompletionError)"
  let ?text = "ascii ''Earth is really flat''"
  have four: "length (py_split ?text) = 4"
    by (simp add: py_split_def ascii_def is_space_def)
  have three: "length (py_split (ascii ''Earth is flat'')) = 3"
    by (simp add: py_split_def ascii_def is_space_def)
  have adm: "ADMIN_IDS ?down = [1001]" "ADMIN_IDS ?found = [1001]"
    by (simp_all add: example_env_def)
  have none: "fst (query_google_fact_check_api ?down ?text empty_world) = Inr None"
    by (simp add: query_google_fact_check_api_def example_env_def and_then_def)
  have some: "fst (query_google_fact_check_api ?found ?text empty_world) =
      Inr (Some ([0x1F50E] @ ascii '' *Claim:* Earth is flat'' @ [10] @
             [0x1F464] @ ascii '' *Source:* Unknown'' @ [10] @
             [0x1F4DD] @ ascii '' *Rating:* False'' @ [10] @
             [0x1F3E2] @ ascii '' *Publisher:* Snopes'' @ [10] @
             [0x1F517] @ ascii '' [Read more]()''))"
    by (simp add: query_google_fact_check_api_def example_env_def example_response_def
          and_then_def first_claim_summary_def ascii_def)
  have raises: "advisor_raises ?down ?text"
    by (simp add: advisor_raises_def example_env_def and_then_def)
  have out: "fst (ai_suggest_fact_check ?down ?text empty_world) = AI_UNAVAILABLE_TEXT"
    by (simp add: ai_suggest_fact_check_def example_env_def and_then_def)
  note a = auto_fact_check_trigger [of "example_update 1001 ?text" ?down empty_world]
  note b = auto_fact_check_trigger [of "example_update 1001 ?text" ?found empty_world]
  note c = auto_fact_check_trigger [of "example_update 1002 ?text" ?down empty_world]
  note d = auto_fact_check_trigger [of "example_update 1001 (ascii ''Earth is flat'')" ?down empty_world]
  have A: "new_effects empty_world (auto_fact_check ?down (example_update 1001 ?text) empty_world) =
     [HttpGetClaimsSearch ?text, ChatCompletion (completion_messages ?text) 150, LogError,
      Reply (AUTO_PREFIX @ AI_UNAVAILABLE_TEXT) True None True]"
    using a by (simp add: example_update_def four adm none raises out)
  have B: "new_effects empty_world (auto_fact_check ?found (example_update 1001 ?text) empty_world) =
     [HttpGetClaimsSearch ?text,
      Reply (AUTO_PREFIX @
             [0x1F50E] @ ascii '' *Claim:* Earth is flat'' @ [10] @
             [0x1F464] @ ascii '' *Source:* Unknown'' @ [10] @
             [0x1F4DD] @ ascii '' *Rating:* False'' @ [10] @
             [0x1F3E2] @ ascii '' *Publisher:* Snopes'' @ [10] @
             [0x1F517] @ ascii '' [Read more]()'') True None True]"
    using b by (simp add: example_update_def four adm some)
  have C: "auto_fact_check ?down (example_update 1002 ?text) empty_world = (None, empty_world)"
    using c by (simp add: example_update_def adm)
  have D: "auto_fact_check ?down (example_update 1001 (ascii ''Earth is flat'')) empty_world =
      (None, empty_world)"
    using d by (simp add: example_update_def three adm)
  from A B C D show ?thesis by blast
qed

text \<open>
  C8 (\<open>/factcheck\<close> without arguments only sends the usage hint): the one effect is the
  reply with the usage text, the table is as before, and no request is made.
\<close>

theorem factcheck_no_args_usage_only:
  "factcheck env u [] w = (None, w\<lparr>trace := trace w @ [Reply USAGE_TEXT False None False]\<rparr>) \<and>
   claims_db (snd (factcheck env u [] w)) = claims_db w \<and>
   new_effects w (factcheck env u [] w) = [Reply USAGE_TEXT False None False]"
  by (simp add: factcheck_def emit_def new_effects_def)

text \<open>
  C9 (\<open>/quicknews\<close> always sends the same text and calls no service): the effects of two
  invocations, whatever the updates and the worlds, are equal; they are one reply, the
  header and the three trending items joined by blank lines; nothing else changes.
\<close>

theorem quicknews_reply_constant:
  "new_effects w (quicknews u w) = new_effects w' (quicknews u' w') \<and>
   new_effects w (quicknews u w) =
     [Reply ([0x1F525] @ ascii '' *Trending Fact-Checks:*'' @ [10, 10] @
             trending ! 0 @ [10, 10] @ trending ! 1 @ [10, 10] @ trending ! 2) True None False] \<and>
   length trending = 3 \<and>
   quicknews u w = (None, w\<lparr>trace := trace w @ new_effects w (quicknews u w)\<rparr>)"
  by (simp add: quicknews_def emit_def new_effects_def trending_def)

end
